theory Spec2Isabelle
  imports Main "HOL-Library.Word"
begin

section \<open>Instruction templates (\<^verbatim>\<open>_instruct_templates.py\<close>)\<close>

text \<open>
  Python exceptions are values. \<open>KeyError\<close> carries the key that was looked up,
  \<open>ValueError\<close> and \<open>TypeError\<close> their message; \<open>Raised\<close> is an exception of a
  collaborator outside this repository (validator, tokenizer, data loader, packing layer).
  The spec's error names are kinds, not classes of the code: its \<open>MissingFieldError\<close> is
  the \<open>KeyError\<close> of a subscript on the sample, its \<open>ConfigurationError\<close> the
  \<open>ValueError\<close> of the constructors, and its \<open>InternalInvariantError\<close> the
  \<open>AssertionError\<close> of the \<open>assert\<close> statement.
\<close>

datatype error =
    KeyError string
  | ValueError string
  | TypeError string
  | AssertionError
  | Raised string

text \<open>
  A sample is a \<open>Mapping[str, Any]\<close>; the fields the templates and the datasets read are
  text columns, so values are strings. A column map is an \<open>Optional[Dict[str, str]]\<close>.
\<close>

type_synonym sample = "string \<rightharpoonup> string"

type_synonym column_map = "string \<rightharpoonup> string"

text \<open>\<open>sample[key]\<close>: a missing key raises \<open>KeyError(key)\<close>.\<close>

definition subscript :: "sample \<Rightarrow> string \<Rightarrow> error + string" where
  "subscript sample key = (case sample key of None \<Rightarrow> Inl (KeyError key) | Some v \<Rightarrow> Inr v)"

text \<open>\<open>d.get(key, default)\<close>.\<close>

definition dict_get :: "column_map \<Rightarrow> string \<Rightarrow> string \<Rightarrow> string" where
  "dict_get d key dflt = (case d key of None \<Rightarrow> dflt | Some v \<Rightarrow> v)"

text \<open>
  \<open>column_map or {}\<close>: \<open>None\<close> and the empty dict are both falsy and both give a dict
  with no entry; any other dict is itself.
\<close>

definition or_empty :: "column_map option \<Rightarrow> column_map" where
  "or_empty column_map = (case column_map of None \<Rightarrow> Map.empty | Some d \<Rightarrow> d)"

text \<open>The key a placeholder resolves to: \<open>(column_map or {}).get(name, name)\<close>.\<close>

abbreviation resolved :: "column_map option \<Rightarrow> string \<Rightarrow> string" where
  "resolved column_map name \<equiv> dict_get (or_empty column_map) name name"

text \<open>
  A format string is its literal text interleaved with named replacement fields;
  \<open>str.format(**kwargs)\<close> walks it from left to right, copies the text, and puts the
  keyword's value in place of each field (the value itself is never parsed again, so
  braces in it are kept). A field with no keyword raises \<open>KeyError\<close>.
\<close>

datatype piece = Lit string | Field string

fun str_format :: "piece list \<Rightarrow> (string \<times> string) list \<Rightarrow> error + string" where
  "str_format [] kwargs = Inr []"
| "str_format (Lit s # ps) kwargs =
     (case str_format ps kwargs of Inl e \<Rightarrow> Inl e | Inr r \<Rightarrow> Inr (s @ r))"
| "str_format (Field f # ps) kwargs =
     (case map_of kwargs f of
        None \<Rightarrow> Inl (KeyError f)
      | Some v \<Rightarrow> (case str_format ps kwargs of Inl e \<Rightarrow> Inl e | Inr r \<Rightarrow> Inr (v @ r)))"

text \<open>The three entries of \<open>AlpacaInstructTemplate.template\<close>.\<close>

definition prompt_input :: "piece list" where
  "prompt_input =
     [Lit (''Below is an instruction that describes a task, paired with an input that provides further context. ''
           @ ''Write a response that appropriately completes the request.\<newline>\<newline>''
           @ ''### Instruction:\<newline>''),
      Field ''instruction'',
      Lit ''\<newline>\<newline>### Input:\<newline>'',
      Field ''input'',
      Lit ''\<newline>\<newline>### Response:\<newline>'']"

definition prompt_no_input :: "piece list" where
  "prompt_no_input =
     [Lit (''Below is an instruction that describes a task. ''
           @ ''Write a response that appropriately completes the request.\<newline>\<newline>''
           @ ''### Instruction:\<newline>''),
      Field ''instruction'',
      Lit ''\<newline>\<newline>### Response:\<newline>'']"

definition prompt_issai :: "piece list" where
  "prompt_issai =
     [Lit (''Below is an instruction that describes a task. ''
           @ ''Write a response that appropriately completes the request.\<newline>\<newline>''
           @ ''### Instruction:\<newline>''),
      Field ''instruction'',
      Lit ''\<newline>'',
      Field ''input'',
      Lit ''\<newline>\<newline>### Response:\<newline>'']"

text \<open>The one entry of \<open>LlamaInstructTemplate.template\<close>.\<close>

definition llama_orig :: "piece list" where
  "llama_orig =
     [Lit (''<|start_header_id|>system<|end_header_id|>\<newline>\<newline>''
           @ ''Cutting Knowledge Date: December 2023\<newline>Today Date: 23 July 2024\<newline>\<newline>''
           @ ''You are a helpful assistant''
           @ ''<|start_header_id|>user<|end_header_id|>\<newline>\<newline>''),
      Field ''instruction'',
      Lit ''\<newline>'',
      Field ''input'',
      Lit (''\<newline>'' @ ''<|start_header_id|>assistant<|end_header_id|>'')]"

text \<open>
  \<open>AlpacaInstructTemplate.format\<close>. The keyword arguments are evaluated in the order they
  are written: \<open>sample[key_instruction]\<close> first, then \<open>sample[key_input]\<close>, then the call.
\<close>

definition AlpacaInstructTemplate_format :: "sample \<Rightarrow> column_map option \<Rightarrow> error + string" where
  "AlpacaInstructTemplate_format sample column_map =
     (let column_map' = or_empty column_map;
          key_input = dict_get column_map' ''input'' ''input'';
          key_instruction = dict_get column_map' ''instruction'' ''instruction''
      in case subscript sample key_instruction of
           Inl e \<Rightarrow> Inl e
         | Inr instruction \<Rightarrow>
             (case subscript sample key_input of
                Inl e \<Rightarrow> Inl e
              | Inr inp \<Rightarrow>
                  str_format prompt_issai [(''instruction'', instruction), (''input'', inp)]))"

text \<open>\<open>LlamaInstructTemplate.format\<close>.\<close>

definition LlamaInstructTemplate_format :: "sample \<Rightarrow> column_map option \<Rightarrow> error + string" where
  "LlamaInstructTemplate_format sample column_map =
     (let column_map' = or_empty column_map;
          key_input = dict_get column_map' ''input'' ''input'';
          key_instruction = dict_get column_map' ''instruction'' ''instruction''
      in case subscript sample key_instruction of
           Inl e \<Rightarrow> Inl e
         | Inr instruction \<Rightarrow>
             (case subscript sample key_input of
                Inl e \<Rightarrow> Inl e
              | Inr inp \<Rightarrow>
                  str_format llama_orig [(''instruction'', instruction), (''input'', inp)]))"

text \<open>
  The concrete template classes of the repository, and \<open>cls.format\<close> dispatched on the
  class.
\<close>

datatype template = AlpacaInstructTemplate | LlamaInstructTemplate

fun template_format :: "template \<Rightarrow> sample \<Rightarrow> column_map option \<Rightarrow> error + string" where
  "template_format AlpacaInstructTemplate = AlpacaInstructTemplate_format"
| "template_format LlamaInstructTemplate = LlamaInstructTemplate_format"

section \<open>Collaborators of the datasets\<close>

text \<open>
  Modelled from the spec: \<open>Message\<close> is a class of the tokenizer library, not of this
  repository: a role, a content string and a masked flag, the flag false when the
  constructor is not given one.
\<close>

datatype role = System | User | Assistant | Ipython

record message =
  role :: role
  content :: string
  masked :: bool

definition Message :: "role \<Rightarrow> string \<Rightarrow> bool option \<Rightarrow> message" where
  "Message r c m = \<lparr>role = r, content = c, masked = (case m of None \<Rightarrow> False | Some b \<Rightarrow> b)\<rparr>"

text \<open>
  Token ids and labels are 64-bit signed integers. \<open>numpy.where\<close> works on arrays of a
  fixed-width element type, and \<open>int64\<close> is the type numpy gives a list of Python ints each
  of which fits it; the labels it returns are \<open>int64\<close> values. A tokenizer that returns an
  id beyond \<open>int64\<close> makes numpy choose another element type (unsigned, floating or
  object, depending on the values and on numpy's version) and is outside this model.
  A \<open>64 word\<close> is read as a signed value by \<open>sint\<close>; no arithmetic is done on ids, so
  nothing wraps.
\<close>

type_synonym int64 = "64 word"

text \<open>
  Modelled from the spec: \<open>CROSS_ENTROPY_IGNORE_IDX\<close> is a constant of the tokenizer
  library, the ignore index of the loss, conventionally \<open>-100\<close>.
\<close>

definition CROSS_ENTROPY_IGNORE_IDX :: int64 where
  "CROSS_ENTROPY_IGNORE_IDX = - 100"

text \<open>
  The tokenizer is a collaborator and may keep state of its own, so
  \<open>tokenize_messages\<close> takes the tokenizer's state and returns the new one next to
  its result (or its exception). It also carries \<open>max_seq_len\<close> and \<open>pad_id\<close>.
\<close>

record 'tk tokenizer =
  tokenize_messages :: "message list \<Rightarrow> 'tk \<Rightarrow> (error + (int64 list \<times> bool list)) \<times> 'tk"
  tokenizer_max_seq_len :: "int option"
  pad_id :: int

text \<open>
  \<open>numpy.where(condition, x, y)\<close> for a one-dimensional condition, an \<open>int64\<close> scalar
  \<open>x\<close> and a one-dimensional \<open>int64\<close> array \<open>y\<close>; the result is an \<open>int64\<close> array. The
  two arrays are broadcast against each other: equal lengths go elementwise, an array of
  length one is stretched to the length of the other, and any other pair of lengths
  raises \<open>ValueError\<close>.
\<close>

definition np_where :: "bool list \<Rightarrow> int64 \<Rightarrow> int64 list \<Rightarrow> error + int64 list" where
  "np_where condition x y =
     (if length condition = length y then Inr (map2 (\<lambda>c v. if c then x else v) condition y)
      else if length condition = 1 then Inr (map (\<lambda>v. if hd condition then x else v) y)
      else if length y = 1 then Inr (map (\<lambda>c. if c then x else hd y) condition)
      else Inl (ValueError ''operands could not be broadcast together''))"

section \<open>The dataset classes (\<^verbatim>\<open>_instruct.py\<close>)\<close>

text \<open>
  The attributes both \<open>__init__\<close> methods set on \<open>self\<close>. The two classes have the same
  attributes, so one record serves both. \<open>self.template\<close> is one of the concrete template
  classes: the constructors below let nothing else through.
\<close>

record 'tk dataset =
  self_tokenizer :: "'tk tokenizer"
  self_data :: "sample list"
  self_template :: template
  self_transform :: "(sample \<Rightarrow> error + sample) option"
  self_column_map :: "column_map option"
  self_train_on_input :: bool
  self_max_seq_len :: "int option"

text \<open>The dict \<open>{"tokens": tokens, "labels": labels}\<close> that \<open>_prepare_sample\<close> returns.\<close>

record labeled_sample =
  tokens :: "int64 list"
  labels :: "int64 list"

text \<open>
  What can be passed as \<open>template\<close>: a concrete template class, the abstract base
  \<open>InstructTemplate\<close>, or a class outside the hierarchy. \<open>template()\<close> instantiates it; the
  abstract base has the abstract method \<open>format\<close> and cannot be instantiated. \<open>instantiate\<close>
  returns the class of the new object, and the two \<open>isinstance\<close> tests read the class
  hierarchy of \<^verbatim>\<open>_instruct_templates.py\<close>, where both concrete templates derive from
  \<open>InstructTemplate\<close> and neither from the other.
\<close>

datatype component = TemplateClass template | InstructTemplate | OtherClass

fun instantiate :: "component \<Rightarrow> error + component" where
  "instantiate InstructTemplate = Inl (TypeError ''cannot instantiate abstract class InstructTemplate'')"
| "instantiate c = Inr c"

fun isinstance_AlpacaInstructTemplate :: "component \<Rightarrow> bool" where
  "isinstance_AlpacaInstructTemplate (TemplateClass AlpacaInstructTemplate) = True"
| "isinstance_AlpacaInstructTemplate c = False"

fun isinstance_InstructTemplate :: "component \<Rightarrow> bool" where
  "isinstance_InstructTemplate (TemplateClass t) = True"
| "isinstance_InstructTemplate InstructTemplate = True"
| "isinstance_InstructTemplate OtherClass = False"

text \<open>
  The collaborators the module imports: the data loader, the component lookup by dotted
  path, the message transform's constructor, and the two wrappers that pad or pack a
  dataset. Each may raise. The wrappers take the dataset, \<open>max_seq_len\<close> and \<open>padding_idx\<close>
  (\<open>None\<close> where the call does not pass it).
\<close>

record ('tk, 'p) collaborators =
  load_dataset :: "string \<Rightarrow> string \<Rightarrow> error + sample list"
  get_component_from_path :: "string \<Rightarrow> error + component"
  InputOutputToMessages :: "bool \<Rightarrow> column_map option \<Rightarrow> string option \<Rightarrow> error option"
  PackedDataset :: "'tk dataset \<Rightarrow> int option \<Rightarrow> int option \<Rightarrow> error + 'p"
  NotPackedDataset :: "'tk dataset \<Rightarrow> int option \<Rightarrow> int option \<Rightarrow> error + 'p"

text \<open>
  \<open>InstructDataset.__init__\<close>: \<open>template()\<close> is built first, the \<open>isinstance\<close> test against
  \<open>AlpacaInstructTemplate\<close> follows, and only then is the data loaded.
\<close>

definition InstructDataset_init ::
  "('tk, 'p) collaborators \<Rightarrow> string \<Rightarrow> 'tk tokenizer \<Rightarrow> string \<Rightarrow> component \<Rightarrow>
   (sample \<Rightarrow> error + sample) option \<Rightarrow> column_map option \<Rightarrow> bool \<Rightarrow> int option \<Rightarrow>
   error + 'tk dataset" where
  "InstructDataset_init env data_files tokenizer source template transform column_map
     train_on_input max_seq_len =
     (case instantiate template of
        Inl e \<Rightarrow> Inl e
      | Inr obj \<Rightarrow>
          if \<not> isinstance_AlpacaInstructTemplate obj
          then Inl (ValueError ''template must be an InstructTemplate class'')
          else (case load_dataset env source data_files of
                  Inl e \<Rightarrow> Inl e
                | Inr d \<Rightarrow>
                    Inr \<lparr>self_tokenizer = tokenizer, self_data = d,
                         self_template = AlpacaInstructTemplate, self_transform = transform,
                         self_column_map = column_map, self_train_on_input = train_on_input,
                         self_max_seq_len = max_seq_len\<rparr>))"

text \<open>
  \<open>ISSAIInstructDataset.__init__\<close>: the test is against \<open>InstructTemplate\<close>. An object
  that \<open>template()\<close> returns is an instance of \<open>InstructTemplate\<close> exactly when its class is
  one of the concrete template classes, and that class is what \<open>self.template\<close> keeps.
  The data is taken as given.
\<close>

definition ISSAIInstructDataset_init ::
  "'tk tokenizer \<Rightarrow> sample list \<Rightarrow> component \<Rightarrow> (sample \<Rightarrow> error + sample) option \<Rightarrow>
   column_map option \<Rightarrow> bool \<Rightarrow> int option \<Rightarrow> error + 'tk dataset" where
  "ISSAIInstructDataset_init tokenizer data template transform column_map train_on_input
     max_seq_len =
     (case instantiate template of
        Inl e \<Rightarrow> Inl e
      | Inr obj \<Rightarrow>
          (case obj of
             TemplateClass t \<Rightarrow>
               Inr \<lparr>self_tokenizer = tokenizer, self_data = data,
                    self_template = t, self_transform = transform,
                    self_column_map = column_map, self_train_on_input = train_on_input,
                    self_max_seq_len = max_seq_len\<rparr>
           | _ \<Rightarrow> Inl (ValueError ''template must be an InstructTemplate class'')))"

text \<open>
  The key of the output column:
  \<open>self._column_map["output"] if self._column_map and "output" in self._column_map else "output"\<close>.
\<close>

definition key_output :: "column_map option \<Rightarrow> string" where
  "key_output column_map =
     (case column_map of
        None \<Rightarrow> ''output''
      | Some d \<Rightarrow> (case d ''output'' of None \<Rightarrow> ''output'' | Some k \<Rightarrow> k))"

text \<open>\<open>self._transform(sample) if self._transform else sample\<close>.\<close>

definition apply_transform :: "(sample \<Rightarrow> error + sample) option \<Rightarrow> sample \<Rightarrow> error + sample" where
  "apply_transform transform sample =
     (case transform of None \<Rightarrow> Inr sample | Some f \<Rightarrow> f sample)"

text \<open>
  \<open>InstructDataset._prepare_sample\<close>. \<open>validate_messages\<close> is a collaborator: it returns
  nothing or raises. Every step that raises ends the call with that exception; the
  tokenizer's state changes only when \<open>tokenize_messages\<close> is called. The two messages
  are built in order, so the prompt is formatted before the output column is read.
\<close>

definition InstructDataset_prepare_sample ::
  "(message list \<Rightarrow> error option) \<Rightarrow> 'tk dataset \<Rightarrow> sample \<Rightarrow> 'tk \<Rightarrow>
   (error + labeled_sample) \<times> 'tk" where
  "InstructDataset_prepare_sample validate_messages self sample s =
     (case apply_transform (self_transform self) sample of
        Inl e \<Rightarrow> (Inl e, s)
      | Inr transformed_sample \<Rightarrow>
     (case template_format (self_template self) transformed_sample (self_column_map self) of
        Inl e \<Rightarrow> (Inl e, s)
      | Inr prompt \<Rightarrow>
     (case subscript transformed_sample (key_output (self_column_map self)) of
        Inl e \<Rightarrow> (Inl e, s)
      | Inr out \<Rightarrow>
     (let messages = [Message User prompt (Some (\<not> self_train_on_input self)),
                      Message Assistant out None]
      in case validate_messages messages of
        Some e \<Rightarrow> (Inl e, s)
      | None \<Rightarrow>
     (case tokenize_messages (self_tokenizer self) messages s of
        (Inl e, s') \<Rightarrow> (Inl e, s')
      | (Inr (toks, msk), s') \<Rightarrow>
     (case np_where msk CROSS_ENTROPY_IGNORE_IDX toks of
        Inl e \<Rightarrow> (Inl e, s')
      | Inr labs \<Rightarrow>
          if length toks = length labs
          then (Inr \<lparr>tokens = toks, labels = labs\<rparr>, s')
          else (Inl AssertionError, s')))))))"

text \<open>\<open>ISSAIInstructDataset._prepare_sample\<close>, translated from its own body.\<close>

definition ISSAIInstructDataset_prepare_sample ::
  "(message list \<Rightarrow> error option) \<Rightarrow> 'tk dataset \<Rightarrow> sample \<Rightarrow> 'tk \<Rightarrow>
   (error + labeled_sample) \<times> 'tk" where
  "ISSAIInstructDataset_prepare_sample validate_messages self sample s =
     (case apply_transform (self_transform self) sample of
        Inl e \<Rightarrow> (Inl e, s)
      | Inr transformed_sample \<Rightarrow>
     (case template_format (self_template self) transformed_sample (self_column_map self) of
        Inl e \<Rightarrow> (Inl e, s)
      | Inr prompt \<Rightarrow>
     (case subscript transformed_sample (key_output (self_column_map self)) of
        Inl e \<Rightarrow> (Inl e, s)
      | Inr out \<Rightarrow>
     (let messages = [Message User prompt (Some (\<not> self_train_on_input self)),
                      Message Assistant out None]
      in case validate_messages messages of
        Some e \<Rightarrow> (Inl e, s)
      | None \<Rightarrow>
     (case tokenize_messages (self_tokenizer self) messages s of
        (Inl e, s') \<Rightarrow> (Inl e, s')
      | (Inr (toks, msk), s') \<Rightarrow>
     (case np_where msk CROSS_ENTROPY_IGNORE_IDX toks of
        Inl e \<Rightarrow> (Inl e, s')
      | Inr labs \<Rightarrow>
          if length toks = length labs
          then (Inr \<lparr>tokens = toks, labels = labs\<rparr>, s')
          else (Inl AssertionError, s')))))))"

text \<open>
  \<open>instruct_dataset\<close>: the message transform is built (and not used), the template is
  looked up by its path, the dataset is constructed, and the result is wrapped. With
  \<open>packed\<close> the tokenizer's own \<open>max_seq_len\<close> is required.
\<close>

definition instruct_dataset ::
  "('tk, 'p) collaborators \<Rightarrow> 'tk tokenizer \<Rightarrow> string \<Rightarrow> string \<Rightarrow> column_map option \<Rightarrow>
   bool \<Rightarrow> string option \<Rightarrow> bool \<Rightarrow> int option \<Rightarrow> string \<Rightarrow> error + 'p" where
  "instruct_dataset env tokenizer data_files source column_map train_on_input
     new_system_prompt packed max_seq_len template =
     (case InputOutputToMessages env train_on_input column_map new_system_prompt of
        Some e \<Rightarrow> Inl e
      | None \<Rightarrow>
     (case get_component_from_path env template of
        Inl e \<Rightarrow> Inl e
      | Inr cls \<Rightarrow>
     (case InstructDataset_init env data_files tokenizer source cls None column_map
             train_on_input max_seq_len of
        Inl e \<Rightarrow> Inl e
      | Inr ds \<Rightarrow>
          if packed then
            (if tokenizer_max_seq_len tokenizer = None
             then Inl (ValueError ''PackedDataset requires a max_seq_len to be set on the tokenizer.'')
             else PackedDataset env ds (tokenizer_max_seq_len tokenizer) None)
          else NotPackedDataset env ds max_seq_len (Some (pad_id tokenizer)))))"

text \<open>
  \<open>issai_instruct_dataset\<close>: the dataset is constructed from the data given and wrapped;
  both wrappers get the \<open>max_seq_len\<close> argument and the tokenizer's \<open>pad_id\<close>.
\<close>

definition issai_instruct_dataset ::
  "('tk, 'p) collaborators \<Rightarrow> sample list \<Rightarrow> 'tk tokenizer \<Rightarrow> string \<Rightarrow> column_map option \<Rightarrow>
   bool \<Rightarrow> int option \<Rightarrow> bool \<Rightarrow> error + 'p" where
  "issai_instruct_dataset env data tokenizer template column_map train_on_input
     max_seq_len packed =
     (case get_component_from_path env template of
        Inl e \<Rightarrow> Inl e
      | Inr cls \<Rightarrow>
     (case ISSAIInstructDataset_init tokenizer data cls None column_map train_on_input
             max_seq_len of
        Inl e \<Rightarrow> Inl e
      | Inr ds \<Rightarrow>
          if packed then PackedDataset env ds max_seq_len (Some (pad_id tokenizer))
          else NotPackedDataset env ds max_seq_len (Some (pad_id tokenizer))))"

section \<open>Example inputs\<close>

text \<open>
  A small tokenizer for the examples: one token per message, the length of its content,
  masked as the message is. Its state counts the calls of \<open>tokenize_messages\<close>.
\<close>

definition example_tokenizer :: "nat tokenizer" where
  "example_tokenizer =
     \<lparr>tokenize_messages =
        (\<lambda>messages n. (Inr (map (\<lambda>m. of_nat (length (content m))) messages, map masked messages), Suc n)),
      tokenizer_max_seq_len = None, pad_id = 0\<rparr>"

text \<open>A dataset over it with the Alpaca template and the default options.\<close>

definition example_dataset :: "nat dataset" where
  "example_dataset =
     \<lparr>self_tokenizer = example_tokenizer, self_data = [],
      self_template = AlpacaInstructTemplate, self_transform = None,
      self_column_map = None, self_train_on_input = False, self_max_seq_len = None\<rparr>"

text \<open>The sample of the spec's end-to-end scenario.\<close>

definition example_sample :: sample where
  "example_sample =
     [''instruction'' \<mapsto> ''Summarize'', ''input'' \<mapsto> ''Long text'', ''output'' \<mapsto> ''Short summary'']"

text \<open>A validator that accepts every message list.\<close>

definition accept_messages :: "message list \<Rightarrow> error option" where
  "accept_messages messages = None"

text \<open>A tokenizer that returns the same tokens and mask whatever the messages.\<close>

definition fixed_tokenizer :: "int64 list \<Rightarrow> bool list \<Rightarrow> nat tokenizer" where
  "fixed_tokenizer toks msk =
     \<lparr>tokenize_messages = (\<lambda>messages n. (Inr (toks, msk), Suc n)),
      tokenizer_max_seq_len = None, pad_id = 0\<rparr>"

text \<open>A validator that raises exactly when it is given the expected messages.\<close>

definition expecting_messages :: "message list \<Rightarrow> message list \<Rightarrow> error option" where
  "expecting_messages expected messages =
     (if messages = expected then Some (Raised ''as expected'') else None)"

text \<open>
  Collaborators for the examples: a loader with one sample, a lookup that knows the two
  template classes by path, and wrappers that return what they were called with.
\<close>

definition example_collaborators ::
  "(nat, nat dataset \<times> int option \<times> int option) collaborators" where
  "example_collaborators =
     \<lparr>load_dataset = (\<lambda>source data_files. Inr [example_sample]),
      get_component_from_path =
        (\<lambda>path. if path = ''torchtune.data.AlpacaInstructTemplate''
                 then Inr (TemplateClass AlpacaInstructTemplate)
                 else if path = ''torchtune.data.LlamaInstructTemplate''
                 then Inr (TemplateClass LlamaInstructTemplate)
                 else Inl (Raised ''InstantiationError'')),
      InputOutputToMessages = (\<lambda>train_on_input column_map new_system_prompt. None),
      PackedDataset = (\<lambda>ds max_seq_len padding_idx. Inr (ds, max_seq_len, padding_idx)),
      NotPackedDataset = (\<lambda>ds max_seq_len padding_idx. Inr (ds, max_seq_len, padding_idx))\<rparr>"


section \<open>Properties of the templates\<close>

lemma Alpaca_format_present:
  assumes "sample (resolved column_map ''instruction'') = Some instruction"
    and "sample (resolved column_map ''input'') = Some inp"
  shows "AlpacaInstructTemplate_format sample column_map =
           str_format prompt_issai [(''instruction'', instruction), (''input'', inp)]"
  using assms by (simp add: AlpacaInstructTemplate_format_def subscript_def)

lemma Llama_format_present:
  assumes "sample (resolved column_map ''instruction'') = Some instruction"
    and "sample (resolved column_map ''input'') = Some inp"
  shows "LlamaInstructTemplate_format sample column_map =
           str_format llama_orig [(''instruction'', instruction), (''input'', inp)]"
  using assms by (simp add: LlamaInstructTemplate_format_def subscript_def)

lemma str_format_prompt_issai:
  "str_format prompt_issai [(''instruction'', instruction), (''input'', inp)] =
     Inr (''Below is an instruction that describes a task. Write a response that appropriately completes the request.\<newline>\<newline>### Instruction:\<newline>''
          @ instruction @ ''\<newline>'' @ inp @ ''\<newline>\<newline>### Response:\<newline>'')"
  by (simp add: prompt_issai_def)

lemma str_format_prompt_no_input:
  "str_format prompt_no_input [(''instruction'', instruction)] =
     Inr (''Below is an instruction that describes a task. Write a response that appropriately completes the request.\<newline>\<newline>### Instruction:\<newline>''
          @ instruction @ ''\<newline>\<newline>### Response:\<newline>'')"
  by (simp add: prompt_no_input_def)

text \<open>
  C3. Whenever the sample holds the resolved instruction and input fields,
  \<open>AlpacaInstructTemplate.format\<close> returns the combined layout: the fixed header, the
  instruction, a newline, the input value, and the response footer. The input value is
  substituted whatever it is, the empty string included, and the result is never the
  instruction-only layout \<open>prompt_no_input\<close> of the same instruction.
\<close>

theorem Alpaca_format_combined_layout:
  assumes "sample (resolved column_map ''instruction'') = Some instruction"
    and "sample (resolved column_map ''input'') = Some inp"
  shows "AlpacaInstructTemplate_format sample column_map =
           Inr (''Below is an instruction that describes a task. Write a response that appropriately completes the request.\<newline>\<newline>### Instruction:\<newline>''
                @ instruction @ ''\<newline>'' @ inp @ ''\<newline>\<newline>### Response:\<newline>'')
         \<and> AlpacaInstructTemplate_format sample column_map \<noteq>
             str_format prompt_no_input [(''instruction'', instruction)]"
proof -
  have eq: "AlpacaInstructTemplate_format sample column_map =
              str_format prompt_issai [(''instruction'', instruction), (''input'', inp)]"
    using assms by (rule Alpaca_format_present)
  have "projr (str_format prompt_issai [(''instruction'', instruction), (''input'', inp)]) \<noteq>
        projr (str_format prompt_no_input [(''instruction'', instruction)])"
  proof
    assume "projr (str_format prompt_issai [(''instruction'', instruction), (''input'', inp)]) =
            projr (str_format prompt_no_input [(''instruction'', instruction)])"
    then have "length (projr (str_format prompt_issai [(''instruction'', instruction), (''input'', inp)])) =
               length (projr (str_format prompt_no_input [(''instruction'', instruction)]))"
      by (rule arg_cong)
    then show False
      by (simp add: str_format_prompt_issai str_format_prompt_no_input)
  qed
  then have "str_format prompt_issai [(''instruction'', instruction), (''input'', inp)] \<noteq>
             str_format prompt_no_input [(''instruction'', instruction)]"
    by auto
  with eq show ?thesis
    by (simp add: str_format_prompt_issai)
qed

theorem Alpaca_format_combined_layout_witness:
  "AlpacaInstructTemplate_format [''instruction'' \<mapsto> ''Write a poem'', ''input'' \<mapsto> ''''] None =
     Inr (''Below is an instruction that describes a task. Write a response that appropriately completes the request.\<newline>\<newline>### Instruction:\<newline>''
          @ ''Write a poem'' @ ''\<newline>'' @ '''' @ ''\<newline>\<newline>### Response:\<newline>'')
   \<and> AlpacaInstructTemplate_format [''instruction'' \<mapsto> ''Write a poem'', ''input'' \<mapsto> ''''] None \<noteq>
       str_format prompt_no_input [(''instruction'', ''Write a poem'')]"
proof -
  have i: "[''instruction'' \<mapsto> ''Write a poem'', ''input'' \<mapsto> '''']
             (resolved None ''instruction'') = Some ''Write a poem''"
    by (simp add: dict_get_def or_empty_def)
  have j: "[''instruction'' \<mapsto> ''Write a poem'', ''input'' \<mapsto> '''']
             (resolved None ''input'') = Some ''''"
    by (simp add: dict_get_def or_empty_def)
  show ?thesis
    by (rule Alpaca_format_combined_layout [OF i j])
qed

lemma str_format_llama_orig:
  "\<exists>p. str_format llama_orig [(''instruction'', instruction), (''input'', inp)] = Inr p"
  by (simp add: llama_orig_def)

lemma template_format_present:
  assumes "sample (resolved column_map ''instruction'') = Some instruction"
    and "sample (resolved column_map ''input'') = Some inp"
  shows "\<exists>p. template_format t sample column_map = Inr p"
proof (cases t)
  case AlpacaInstructTemplate
  then show ?thesis
    using Alpaca_format_present [OF assms] by (simp add: str_format_prompt_issai)
next
  case LlamaInstructTemplate
  then show ?thesis
    using Llama_format_present [OF assms] str_format_llama_orig [of instruction inp] by simp
qed

lemma template_format_no_instruction:
  assumes "sample (resolved column_map ''instruction'') = None"
  shows "template_format t sample column_map = Inl (KeyError (resolved column_map ''instruction''))"
  using assms
  by (cases t) (simp_all add: AlpacaInstructTemplate_format_def LlamaInstructTemplate_format_def subscript_def)

lemma template_format_no_input:
  assumes "sample (resolved column_map ''instruction'') = Some instruction"
    and "sample (resolved column_map ''input'') = None"
  shows "template_format t sample column_map = Inl (KeyError (resolved column_map ''input''))"
  using assms
  by (cases t) (simp_all add: AlpacaInstructTemplate_format_def LlamaInstructTemplate_format_def subscript_def)

text \<open>
  C6. When the sample lacks the resolved instruction key or the resolved input key, the
  \<open>format\<close> of either template raises \<open>KeyError\<close>, and the key it names is the first
  one missing: the instruction key if it is absent, the input key otherwise.
\<close>

theorem format_missing_field:
  assumes "resolved column_map ''instruction'' \<notin> dom sample
           \<or> resolved column_map ''input'' \<notin> dom sample"
  shows "template_format t sample column_map =
           Inl (KeyError (if sample (resolved column_map ''instruction'') = None
                          then resolved column_map ''instruction''
                          else resolved column_map ''input''))"
proof (cases "sample (resolved column_map ''instruction'')")
  case None
  then show ?thesis
    by (simp add: template_format_no_instruction)
next
  case (Some instruction)
  with assms have "sample (resolved column_map ''input'') = None"
    by (auto simp: dom_def)
  with Some show ?thesis
    by (simp add: template_format_no_input)
qed

theorem format_missing_field_witness:
  "template_format AlpacaInstructTemplate [''instruction'' \<mapsto> ''Write a poem''] None =
     Inl (KeyError ''input'')
   \<and> template_format LlamaInstructTemplate [''prompt'' \<mapsto> ''Write a poem'', ''input'' \<mapsto> ''x'']
         (Some [''input'' \<mapsto> ''input'']) = Inl (KeyError ''instruction'')"
proof -
  have a: "resolved None ''instruction'' \<notin> dom [''instruction'' \<mapsto> ''Write a poem'']
           \<or> resolved None ''input'' \<notin> dom [''instruction'' \<mapsto> ''Write a poem'']"
    by (simp add: dict_get_def or_empty_def)
  have b: "resolved (Some [''input'' \<mapsto> ''input'']) ''instruction''
             \<notin> dom [''prompt'' \<mapsto> ''Write a poem'', ''input'' \<mapsto> ''x'']
           \<or> resolved (Some [''input'' \<mapsto> ''input'']) ''input''
             \<notin> dom [''prompt'' \<mapsto> ''Write a poem'', ''input'' \<mapsto> ''x'']"
    by (simp add: dict_get_def or_empty_def)
  show ?thesis
    using format_missing_field [OF a, of AlpacaInstructTemplate]
      format_missing_field [OF b, of LlamaInstructTemplate]
    by (simp add: dict_get_def or_empty_def)
qed

text \<open>
  C8. The result of \<open>format\<close> is fixed by its two arguments, and by no more of them
  than the two resolved keys and what the sample holds there: calls whose column maps
  resolve both placeholders alike, on samples that agree at the two resolved keys, return
  the same string or raise the same exception. Two calls on the same sample and the same
  column map are the special case; nothing else is read and nothing is written.
\<close>

theorem format_depends_on_resolved_fields:
  assumes "resolved cm1 ''instruction'' = resolved cm2 ''instruction''"
    and "resolved cm1 ''input'' = resolved cm2 ''input''"
    and "s1 (resolved cm1 ''instruction'') = s2 (resolved cm2 ''instruction'')"
    and "s1 (resolved cm1 ''input'') = s2 (resolved cm2 ''input'')"
  shows "template_format t s1 cm1 = template_format t s2 cm2"
  using assms
  by (cases t; cases "s2 (resolved cm2 ''instruction'')"; cases "s2 (resolved cm2 ''input'')")
     (simp_all add: AlpacaInstructTemplate_format_def LlamaInstructTemplate_format_def
        subscript_def Let_def)

theorem format_depends_on_resolved_fields_witness:
  "template_format AlpacaInstructTemplate example_sample None =
     template_format AlpacaInstructTemplate
       (example_sample(''output'' \<mapsto> ''Another answer'')) (Some Map.empty)"
proof -
  have k1: "resolved None ''instruction'' = resolved (Some Map.empty) ''instruction''"
    by (simp add: dict_get_def or_empty_def)
  have k2: "resolved None ''input'' = resolved (Some Map.empty) ''input''"
    by (simp add: dict_get_def or_empty_def)
  have v1: "example_sample (resolved None ''instruction'') =
            (example_sample(''output'' \<mapsto> ''Another answer''))
              (resolved (Some Map.empty) ''instruction'')"
    by (simp add: dict_get_def or_empty_def)
  have v2: "example_sample (resolved None ''input'') =
            (example_sample(''output'' \<mapsto> ''Another answer''))
              (resolved (Some Map.empty) ''input'')"
    by (simp add: dict_get_def or_empty_def)
  show ?thesis
    by (rule format_depends_on_resolved_fields [OF k1 k2 v1 v2])
qed

section \<open>Properties of sample preparation\<close>

lemma np_where_same_length:
  assumes "length condition = length y"
  shows "np_where condition x y = Inr (map2 (\<lambda>c v. if c then x else v) condition y)"
  using assms by (simp add: np_where_def)

lemma np_where_mismatch:
  assumes "length condition \<noteq> length y" and "length condition \<noteq> 1"
  shows "np_where condition x y =
           (if length y = 1 then Inr (map (\<lambda>c. if c then x else hd y) condition)
            else Inl (ValueError ''operands could not be broadcast together''))"
  using assms by (simp add: np_where_def)

lemma InstructDataset_prepare_sample_staged:
  assumes "apply_transform (self_transform self) sample = Inr ts"
    and "template_format (self_template self) ts (self_column_map self) = Inr prompt"
    and "ts (key_output (self_column_map self)) = Some out"
  shows "InstructDataset_prepare_sample validate_messages self sample s =
           (case validate_messages
                   [\<lparr>role = User, content = prompt, masked = \<not> self_train_on_input self\<rparr>,
                    \<lparr>role = Assistant, content = out, masked = False\<rparr>] of
              Some e \<Rightarrow> (Inl e, s)
            | None \<Rightarrow>
                (case tokenize_messages (self_tokenizer self)
                        [\<lparr>role = User, content = prompt, masked = \<not> self_train_on_input self\<rparr>,
                         \<lparr>role = Assistant, content = out, masked = False\<rparr>] s of
                   (Inl e, s') \<Rightarrow> (Inl e, s')
                 | (Inr (toks, msk), s') \<Rightarrow>
                     (case np_where msk CROSS_ENTROPY_IGNORE_IDX toks of
                        Inl e \<Rightarrow> (Inl e, s')
                      | Inr labs \<Rightarrow>
                          if length toks = length labs
                          then (Inr \<lparr>tokens = toks, labels = labs\<rparr>, s')
                          else (Inl AssertionError, s'))))"
  using assms by (simp add: InstructDataset_prepare_sample_def subscript_def Message_def Let_def)

lemma ISSAIInstructDataset_prepare_sample_staged:
  assumes "apply_transform (self_transform self) sample = Inr ts"
    and "template_format (self_template self) ts (self_column_map self) = Inr prompt"
    and "ts (key_output (self_column_map self)) = Some out"
  shows "ISSAIInstructDataset_prepare_sample validate_messages self sample s =
           (case validate_messages
                   [\<lparr>role = User, content = prompt, masked = \<not> self_train_on_input self\<rparr>,
                    \<lparr>role = Assistant, content = out, masked = False\<rparr>] of
              Some e \<Rightarrow> (Inl e, s)
            | None \<Rightarrow>
                (case tokenize_messages (self_tokenizer self)
                        [\<lparr>role = User, content = prompt, masked = \<not> self_train_on_input self\<rparr>,
                         \<lparr>role = Assistant, content = out, masked = False\<rparr>] s of
                   (Inl e, s') \<Rightarrow> (Inl e, s')
                 | (Inr (toks, msk), s') \<Rightarrow>
                     (case np_where msk CROSS_ENTROPY_IGNORE_IDX toks of
                        Inl e \<Rightarrow> (Inl e, s')
                      | Inr labs \<Rightarrow>
                          if length toks = length labs
                          then (Inr \<lparr>tokens = toks, labels = labs\<rparr>, s')
                          else (Inl AssertionError, s'))))"
  using assms by (simp add: ISSAIInstructDataset_prepare_sample_def subscript_def Message_def Let_def)

lemma InstructDataset_prepare_sample_tokenized:
  assumes "apply_transform (self_transform self) sample = Inr ts"
    and "template_format (self_template self) ts (self_column_map self) = Inr prompt"
    and "ts (key_output (self_column_map self)) = Some out"
    and "validate_messages
           [\<lparr>role = User, content = prompt, masked = \<not> self_train_on_input self\<rparr>,
            \<lparr>role = Assistant, content = out, masked = False\<rparr>] = None"
    and "tokenize_messages (self_tokenizer self)
           [\<lparr>role = User, content = prompt, masked = \<not> self_train_on_input self\<rparr>,
            \<lparr>role = Assistant, content = out, masked = False\<rparr>] s = (Inr (toks, msk), s')"
  shows "InstructDataset_prepare_sample validate_messages self sample s =
           (case np_where msk CROSS_ENTROPY_IGNORE_IDX toks of
              Inl e \<Rightarrow> (Inl e, s')
            | Inr labs \<Rightarrow>
                if length toks = length labs
                then (Inr \<lparr>tokens = toks, labels = labs\<rparr>, s')
                else (Inl AssertionError, s'))"
  using assms(4,5)
  by (simp add: InstructDataset_prepare_sample_staged [OF assms(1,2,3)])

lemma ISSAIInstructDataset_prepare_sample_tokenized:
  assumes "apply_transform (self_transform self) sample = Inr ts"
    and "template_format (self_template self) ts (self_column_map self) = Inr prompt"
    and "ts (key_output (self_column_map self)) = Some out"
    and "validate_messages
           [\<lparr>role = User, content = prompt, masked = \<not> self_train_on_input self\<rparr>,
            \<lparr>role = Assistant, content = out, masked = False\<rparr>] = None"
    and "tokenize_messages (self_tokenizer self)
           [\<lparr>role = User, content = prompt, masked = \<not> self_train_on_input self\<rparr>,
            \<lparr>role = Assistant, content = out, masked = False\<rparr>] s = (Inr (toks, msk), s')"
  shows "ISSAIInstructDataset_prepare_sample validate_messages self sample s =
           (case np_where msk CROSS_ENTROPY_IGNORE_IDX toks of
              Inl e \<Rightarrow> (Inl e, s')
            | Inr labs \<Rightarrow>
                if length toks = length labs
                then (Inr \<lparr>tokens = toks, labels = labs\<rparr>, s')
                else (Inl AssertionError, s'))"
  using assms(4,5)
  by (simp add: ISSAIInstructDataset_prepare_sample_staged [OF assms(1,2,3)])

lemma masked_labels_nth:
  assumes "length msk = length toks" and "i < length toks" and "x \<notin> set toks"
  shows "(map2 (\<lambda>c v. if c then x else v) msk toks ! i = x) = msk ! i"
    and "\<not> msk ! i \<Longrightarrow> map2 (\<lambda>c v. if c then x else v) msk toks ! i = toks ! i"
  using assms by (auto simp: nth_mem)

lemma example_stages:
  "apply_transform (self_transform example_dataset) example_sample = Inr example_sample"
  "template_format (self_template example_dataset) example_sample (self_column_map example_dataset) =
     Inr ''Below is an instruction that describes a task. Write a response that appropriately completes the request.\<newline>\<newline>### Instruction:\<newline>Summarize\<newline>Long text\<newline>\<newline>### Response:\<newline>''"
  "example_sample (key_output (self_column_map example_dataset)) = Some ''Short summary''"
  by (simp_all add: example_dataset_def example_sample_def apply_transform_def key_output_def
        AlpacaInstructTemplate_format_def or_empty_def dict_get_def subscript_def prompt_issai_def)

text \<open>
  C1. When the tokenizer returns tokens (ids within \<open>int64\<close>, as the type has it) and a
  mask of the same length, and the ignore index is not among the tokens, \<open>_prepare_sample\<close> of either class returns the tokens
  with a label list of the same length in which position \<open>i\<close> holds the ignore index
  exactly when \<open>mask[i]\<close> is true, and holds \<open>tokens[i]\<close> wherever \<open>mask[i]\<close> is false.
\<close>

theorem prepare_sample_labels:
  assumes "apply_transform (self_transform self) sample = Inr ts"
    and "template_format (self_template self) ts (self_column_map self) = Inr prompt"
    and "ts (key_output (self_column_map self)) = Some out"
    and "validate_messages
           [\<lparr>role = User, content = prompt, masked = \<not> self_train_on_input self\<rparr>,
            \<lparr>role = Assistant, content = out, masked = False\<rparr>] = None"
    and "tokenize_messages (self_tokenizer self)
           [\<lparr>role = User, content = prompt, masked = \<not> self_train_on_input self\<rparr>,
            \<lparr>role = Assistant, content = out, masked = False\<rparr>] s = (Inr (toks, msk), s')"
    and "length toks = length msk"
    and "CROSS_ENTROPY_IGNORE_IDX \<notin> set toks"
  shows "\<exists>labs.
           InstructDataset_prepare_sample validate_messages self sample s =
             (Inr \<lparr>tokens = toks, labels = labs\<rparr>, s')
         \<and> ISSAIInstructDataset_prepare_sample validate_messages self sample s =
             (Inr \<lparr>tokens = toks, labels = labs\<rparr>, s')
         \<and> length labs = length toks
         \<and> (\<forall>i < length toks.
               (labs ! i = CROSS_ENTROPY_IGNORE_IDX) = msk ! i
             \<and> (\<not> msk ! i \<longrightarrow> labs ! i = toks ! i))"
proof -
  let ?labs = "map2 (\<lambda>c v. if c then CROSS_ENTROPY_IGNORE_IDX else v) msk toks"
  have len: "length msk = length toks"
    using assms(6) by simp
  have w: "np_where msk CROSS_ENTROPY_IGNORE_IDX toks = Inr ?labs"
    using len by (rule np_where_same_length)
  have l: "length ?labs = length toks"
    using len by simp
  have a: "InstructDataset_prepare_sample validate_messages self sample s =
             (Inr \<lparr>tokens = toks, labels = ?labs\<rparr>, s')"
    using InstructDataset_prepare_sample_tokenized
            [where validate_messages = validate_messages and ts = ts, OF assms(1-5)] w l by simp
  have b: "ISSAIInstructDataset_prepare_sample validate_messages self sample s =
             (Inr \<lparr>tokens = toks, labels = ?labs\<rparr>, s')"
    using ISSAIInstructDataset_prepare_sample_tokenized
            [where validate_messages = validate_messages and ts = ts, OF assms(1-5)] w l by simp
  have c: "\<forall>i < length toks.
             (?labs ! i = CROSS_ENTROPY_IGNORE_IDX) = msk ! i
           \<and> (\<not> msk ! i \<longrightarrow> ?labs ! i = toks ! i)"
    using masked_labels_nth [OF len _ assms(7)] by blast
  from a b l c show ?thesis
    by blast
qed

theorem prepare_sample_labels_witness:
  "InstructDataset_prepare_sample accept_messages example_dataset example_sample 0 =
     (Inr \<lparr>tokens = [159, 13], labels = [- 100, 13]\<rparr>, 1)
   \<and> ISSAIInstructDataset_prepare_sample accept_messages example_dataset example_sample 0 =
     (Inr \<lparr>tokens = [159, 13], labels = [- 100, 13]\<rparr>, 1)"
proof -
  have v: "accept_messages
             [\<lparr>role = User,
               content = ''Below is an instruction that describes a task. Write a response that appropriately completes the request.\<newline>\<newline>### Instruction:\<newline>Summarize\<newline>Long text\<newline>\<newline>### Response:\<newline>'',
               masked = \<not> self_train_on_input example_dataset\<rparr>,
              \<lparr>role = Assistant, content = ''Short summary'', masked = False\<rparr>] = None"
    by (simp add: accept_messages_def)
  have t: "tokenize_messages (self_tokenizer example_dataset)
             [\<lparr>role = User,
               content = ''Below is an instruction that describes a task. Write a response that appropriately completes the request.\<newline>\<newline>### Instruction:\<newline>Summarize\<newline>Long text\<newline>\<newline>### Response:\<newline>'',
               masked = \<not> self_train_on_input example_dataset\<rparr>,
              \<lparr>role = Assistant, content = ''Short summary'', masked = False\<rparr>] 0 =
           (Inr ([159, 13], [True, False]), 1)"
    by (simp add: example_dataset_def example_tokenizer_def)
  have e: "length [159, 13 :: int64] = length [True, False]"
    by simp
  have n: "CROSS_ENTROPY_IGNORE_IDX \<notin> set [159, 13]"
    by (simp add: CROSS_ENTROPY_IGNORE_IDX_def)
  from prepare_sample_labels
         [where validate_messages = accept_messages and ts = example_sample,
          OF example_stages v t e n]
  obtain labs where r:
      "InstructDataset_prepare_sample accept_messages example_dataset example_sample 0 =
         (Inr \<lparr>tokens = [159, 13], labels = labs\<rparr>, 1)"
      "ISSAIInstructDataset_prepare_sample accept_messages example_dataset example_sample 0 =
         (Inr \<lparr>tokens = [159, 13], labels = labs\<rparr>, 1)"
    and l: "length labs = 2"
    and p: "\<forall>i < 2. (labs ! i = CROSS_ENTROPY_IGNORE_IDX) = [True, False] ! i
                   \<and> (\<not> [True, False] ! i \<longrightarrow> labs ! i = [159, 13] ! i)"
    by auto
  from p have "labs ! 0 = - 100"
    by (simp add: CROSS_ENTROPY_IGNORE_IDX_def)
  moreover from p have "labs ! 1 = 13"
    by (auto dest: spec [of _ 1])
  ultimately have "labs = [- 100, 13]"
    using l by (simp add: list_eq_iff_nth_eq less_Suc_eq numeral_2_eq_2)
  with r show ?thesis
    by simp
qed

text \<open>
  C2. Once the prompt is formatted, \<open>_prepare_sample\<close> of either class reads the output
  field (the column that \<open>column_map["output"]\<close> names when the column map has that entry,
  the column \<open>output\<close> otherwise) and hands the validator, and then the tokenizer, the
  same list of exactly two messages: the user message with the prompt, masked when
  \<open>train_on_input\<close> is false, and then the assistant message with the output field, not
  masked. This holds for every validator and tokenizer, so it is the list they are
  called with.
\<close>

theorem prepare_sample_messages:
  assumes "apply_transform (self_transform self) sample = Inr ts"
    and "template_format (self_template self) ts (self_column_map self) = Inr prompt"
    and "ts (case self_column_map self of
               None \<Rightarrow> ''output''
             | Some d \<Rightarrow> (if ''output'' \<in> dom d then the (d ''output'') else ''output'')) =
         Some out"
  shows "InstructDataset_prepare_sample validate_messages self sample s =
           (case validate_messages
                   [\<lparr>role = User, content = prompt, masked = \<not> self_train_on_input self\<rparr>,
                    \<lparr>role = Assistant, content = out, masked = False\<rparr>] of
              Some e \<Rightarrow> (Inl e, s)
            | None \<Rightarrow>
                (case tokenize_messages (self_tokenizer self)
                        [\<lparr>role = User, content = prompt, masked = \<not> self_train_on_input self\<rparr>,
                         \<lparr>role = Assistant, content = out, masked = False\<rparr>] s of
                   (Inl e, s') \<Rightarrow> (Inl e, s')
                 | (Inr (toks, msk), s') \<Rightarrow>
                     (case np_where msk CROSS_ENTROPY_IGNORE_IDX toks of
                        Inl e \<Rightarrow> (Inl e, s')
                      | Inr labs \<Rightarrow>
                          if length toks = length labs
                          then (Inr \<lparr>tokens = toks, labels = labs\<rparr>, s')
                          else (Inl AssertionError, s'))))
         \<and> ISSAIInstructDataset_prepare_sample validate_messages self sample s =
           (case validate_messages
                   [\<lparr>role = User, content = prompt, masked = \<not> self_train_on_input self\<rparr>,
                    \<lparr>role = Assistant, content = out, masked = False\<rparr>] of
              Some e \<Rightarrow> (Inl e, s)
            | None \<Rightarrow>
                (case tokenize_messages (self_tokenizer self)
                        [\<lparr>role = User, content = prompt, masked = \<not> self_train_on_input self\<rparr>,
                         \<lparr>role = Assistant, content = out, masked = False\<rparr>] s of
                   (Inl e, s') \<Rightarrow> (Inl e, s')
                 | (Inr (toks, msk), s') \<Rightarrow>
                     (case np_where msk CROSS_ENTROPY_IGNORE_IDX toks of
                        Inl e \<Rightarrow> (Inl e, s')
                      | Inr labs \<Rightarrow>
                          if length toks = length labs
                          then (Inr \<lparr>tokens = toks, labels = labs\<rparr>, s')
                          else (Inl AssertionError, s'))))"
proof -
  have "key_output (self_column_map self) =
          (case self_column_map self of
             None \<Rightarrow> ''output''
           | Some d \<Rightarrow> (if ''output'' \<in> dom d then the (d ''output'') else ''output''))"
    by (auto simp: key_output_def split: option.splits)
  with assms(3) have out: "ts (key_output (self_column_map self)) = Some out"
    by simp
  show ?thesis
    using InstructDataset_prepare_sample_staged
            [where validate_messages = validate_messages and ts = ts, OF assms(1,2) out]
          ISSAIInstructDataset_prepare_sample_staged
            [where validate_messages = validate_messages and ts = ts, OF assms(1,2) out]
    by (rule conjI)
qed

theorem prepare_sample_messages_witness:
  "InstructDataset_prepare_sample
     (expecting_messages
        [\<lparr>role = User, content = ''Below is an instruction that describes a task. Write a response that appropriately completes the request.\<newline>\<newline>### Instruction:\<newline>Summarize\<newline>Long text\<newline>\<newline>### Response:\<newline>'', masked = True\<rparr>,
         \<lparr>role = Assistant, content = ''Mapped summary'', masked = False\<rparr>])
     (example_dataset\<lparr>self_column_map := Some [''output'' \<mapsto> ''response'']\<rparr>)
     (example_sample(''response'' \<mapsto> ''Mapped summary'')) 0 =
       (Inl (Raised ''as expected''), 0)
   \<and> ISSAIInstructDataset_prepare_sample
     (expecting_messages
        [\<lparr>role = User, content = ''Below is an instruction that describes a task. Write a response that appropriately completes the request.\<newline>\<newline>### Instruction:\<newline>Summarize\<newline>Long text\<newline>\<newline>### Response:\<newline>'', masked = False\<rparr>,
         \<lparr>role = Assistant, content = ''Short summary'', masked = False\<rparr>])
     (example_dataset\<lparr>self_train_on_input := True\<rparr>) example_sample 0 =
       (Inl (Raised ''as expected''), 0)"
proof -
  let ?mapped = "example_dataset\<lparr>self_column_map := Some [''output'' \<mapsto> ''response'']\<rparr>"
  let ?sample = "example_sample(''response'' \<mapsto> ''Mapped summary'')"
  let ?trained = "example_dataset\<lparr>self_train_on_input := True\<rparr>"
  have m1: "apply_transform (self_transform ?mapped) ?sample = Inr ?sample"
    by (simp add: example_dataset_def apply_transform_def)
  have m2: "template_format (self_template ?mapped) ?sample (self_column_map ?mapped) =
              Inr ''Below is an instruction that describes a task. Write a response that appropriately completes the request.\<newline>\<newline>### Instruction:\<newline>Summarize\<newline>Long text\<newline>\<newline>### Response:\<newline>''"
    by (simp add: example_dataset_def example_sample_def AlpacaInstructTemplate_format_def
          or_empty_def dict_get_def subscript_def prompt_issai_def)
  have m3: "?sample (case self_column_map ?mapped of
                       None \<Rightarrow> ''output''
                     | Some d \<Rightarrow> (if ''output'' \<in> dom d then the (d ''output'') else ''output'')) =
            Some ''Mapped summary''"
    by simp
  have t1: "apply_transform (self_transform ?trained) example_sample = Inr example_sample"
    using example_stages(1) by simp
  have t2: "template_format (self_template ?trained) example_sample (self_column_map ?trained) =
              Inr ''Below is an instruction that describes a task. Write a response that appropriately completes the request.\<newline>\<newline>### Instruction:\<newline>Summarize\<newline>Long text\<newline>\<newline>### Response:\<newline>''"
    using example_stages(2) by simp
  have t3: "example_sample (case self_column_map ?trained of
                              None \<Rightarrow> ''output''
                            | Some d \<Rightarrow> (if ''output'' \<in> dom d then the (d ''output'') else ''output'')) =
            Some ''Short summary''"
    by (simp add: example_dataset_def example_sample_def)
  have f: "self_train_on_input example_dataset = False"
    by (simp add: example_dataset_def)
  show ?thesis
    using prepare_sample_messages [where ts = ?sample, OF m1 m2 m3]
      prepare_sample_messages [where ts = example_sample, OF t1 t2 t3]
    by (simp add: expecting_messages_def f)
qed

text \<open>
  C5. When the sample that reaches the message builder (the sample itself, or what the
  transform made of it) lacks the resolved output key, \<open>_prepare_sample\<close> of either class
  raises \<open>KeyError\<close>, naming the first missing key among instruction, input and output,
  and the tokenizer's state is what it was: \<open>tokenize_messages\<close> has not been called.
\<close>

theorem prepare_sample_missing_output:
  assumes "apply_transform (self_transform self) sample = Inr ts"
    and "key_output (self_column_map self) \<notin> dom ts"
  shows "InstructDataset_prepare_sample validate_messages self sample s =
           (Inl (KeyError
                  (if ts (resolved (self_column_map self) ''instruction'') = None
                   then resolved (self_column_map self) ''instruction''
                   else if ts (resolved (self_column_map self) ''input'') = None
                   then resolved (self_column_map self) ''input''
                   else key_output (self_column_map self))), s)
         \<and> ISSAIInstructDataset_prepare_sample validate_messages self sample s =
           (Inl (KeyError
                  (if ts (resolved (self_column_map self) ''instruction'') = None
                   then resolved (self_column_map self) ''instruction''
                   else if ts (resolved (self_column_map self) ''input'') = None
                   then resolved (self_column_map self) ''input''
                   else key_output (self_column_map self))), s)"
proof -
  have out: "subscript ts (key_output (self_column_map self)) =
               Inl (KeyError (key_output (self_column_map self)))"
    using assms(2) by (simp add: subscript_def dom_def)
  consider
      (no_instruction) "ts (resolved (self_column_map self) ''instruction'') = None"
    | (no_input) instruction where
        "ts (resolved (self_column_map self) ''instruction'') = Some instruction"
        "ts (resolved (self_column_map self) ''input'') = None"
    | (both) instruction inp where
        "ts (resolved (self_column_map self) ''instruction'') = Some instruction"
        "ts (resolved (self_column_map self) ''input'') = Some inp"
    by (cases "ts (resolved (self_column_map self) ''instruction'')";
        cases "ts (resolved (self_column_map self) ''input'')") auto
  then show ?thesis
  proof cases
    case no_instruction
    then show ?thesis
      using assms(1)
      by (simp add: InstructDataset_prepare_sample_def ISSAIInstructDataset_prepare_sample_def
            template_format_no_instruction)
  next
    case no_input
    then show ?thesis
      using assms(1)
      by (simp add: InstructDataset_prepare_sample_def ISSAIInstructDataset_prepare_sample_def
            template_format_no_input)
  next
    case both
    from template_format_present [OF both]
    obtain p where "template_format (self_template self) ts (self_column_map self) = Inr p"
      by blast
    with both out show ?thesis
      using assms(1)
      by (simp add: InstructDataset_prepare_sample_def ISSAIInstructDataset_prepare_sample_def)
  qed
qed

theorem prepare_sample_missing_output_witness:
  "InstructDataset_prepare_sample accept_messages example_dataset
     [''instruction'' \<mapsto> ''Summarize'', ''input'' \<mapsto> ''Long text''] 0 =
     (Inl (KeyError ''output''), 0)
   \<and> ISSAIInstructDataset_prepare_sample accept_messages example_dataset
     [''instruction'' \<mapsto> ''Summarize'', ''input'' \<mapsto> ''Long text''] 0 =
     (Inl (KeyError ''output''), 0)"
proof -
  have a: "apply_transform (self_transform example_dataset)
             [''instruction'' \<mapsto> ''Summarize'', ''input'' \<mapsto> ''Long text''] =
           Inr [''instruction'' \<mapsto> ''Summarize'', ''input'' \<mapsto> ''Long text'']"
    by (simp add: example_dataset_def apply_transform_def)
  have b: "key_output (self_column_map example_dataset)
             \<notin> dom [''instruction'' \<mapsto> ''Summarize'', ''input'' \<mapsto> ''Long text'']"
    by (simp add: example_dataset_def key_output_def)
  have c: "self_column_map example_dataset = None"
    by (simp add: example_dataset_def)
  show ?thesis
    using prepare_sample_missing_output [OF a b, of accept_messages 0]
    by (simp add: c key_output_def dict_get_def or_empty_def)
qed





text \<open>
  Against C4 as stated: the assertion of \<open>_prepare_sample\<close> compares the tokens with the labels, not with the
  mask, and \<open>numpy.where\<close> stretches a mask of one element over all tokens. With a
  tokenizer that returns three tokens and a mask of one element, both classes return a
  result.
\<close>

theorem prepare_sample_broadcast_mask:
  "tokenize_messages (fixed_tokenizer [5, 6, 7] [True])
     [\<lparr>role = User,
       content = ''Below is an instruction that describes a task. Write a response that appropriately completes the request.\<newline>\<newline>### Instruction:\<newline>Summarize\<newline>Long text\<newline>\<newline>### Response:\<newline>'',
       masked = True\<rparr>,
      \<lparr>role = Assistant, content = ''Short summary'', masked = False\<rparr>] 0 =
     (Inr ([5, 6, 7], [True]), 1)
   \<and> length [5, 6, 7 :: int64] \<noteq> length [True]
   \<and> InstructDataset_prepare_sample accept_messages
       (example_dataset\<lparr>self_tokenizer := fixed_tokenizer [5, 6, 7] [True]\<rparr>) example_sample 0 =
     (Inr \<lparr>tokens = [5, 6, 7], labels = [- 100, - 100, - 100]\<rparr>, 1)
   \<and> ISSAIInstructDataset_prepare_sample accept_messages
       (example_dataset\<lparr>self_tokenizer := fixed_tokenizer [5, 6, 7] [True]\<rparr>) example_sample 0 =
     (Inr \<lparr>tokens = [5, 6, 7], labels = [- 100, - 100, - 100]\<rparr>, 1)"
  by (simp add: InstructDataset_prepare_sample_def ISSAIInstructDataset_prepare_sample_def
        example_dataset_def example_sample_def fixed_tokenizer_def accept_messages_def
        apply_transform_def AlpacaInstructTemplate_format_def or_empty_def dict_get_def
        subscript_def prompt_issai_def key_output_def Message_def np_where_def
        CROSS_ENTROPY_IGNORE_IDX_def)

text \<open>
  C4, as the code has it. After the tokenizer's call \<open>_prepare_sample\<close> derives the labels
  and asserts \<open>len(tokens) == len(labels)\<close>. When tokens and mask differ in length and
  the mask does not have exactly one element, the call of either class ends in an
  exception and returns no result: \<open>AssertionError\<close> when there is exactly one token,
  \<open>ValueError\<close> from \<open>numpy.where\<close> otherwise.
\<close>

theorem prepare_sample_length_mismatch:
  assumes "apply_transform (self_transform self) sample = Inr ts"
    and "template_format (self_template self) ts (self_column_map self) = Inr prompt"
    and "ts (key_output (self_column_map self)) = Some out"
    and "validate_messages
           [\<lparr>role = User, content = prompt, masked = \<not> self_train_on_input self\<rparr>,
            \<lparr>role = Assistant, content = out, masked = False\<rparr>] = None"
    and "tokenize_messages (self_tokenizer self)
           [\<lparr>role = User, content = prompt, masked = \<not> self_train_on_input self\<rparr>,
            \<lparr>role = Assistant, content = out, masked = False\<rparr>] s = (Inr (toks, msk), s')"
    and "length toks \<noteq> length msk"
    and "length msk \<noteq> 1"
  shows "InstructDataset_prepare_sample validate_messages self sample s =
           (if length toks = 1 then (Inl AssertionError, s')
            else (Inl (ValueError ''operands could not be broadcast together''), s'))
         \<and> ISSAIInstructDataset_prepare_sample validate_messages self sample s =
           (if length toks = 1 then (Inl AssertionError, s')
            else (Inl (ValueError ''operands could not be broadcast together''), s'))"
proof -
  from assms(6) have "length msk \<noteq> length toks"
    by simp
  from np_where_mismatch [OF this assms(7)]
  have w: "np_where msk CROSS_ENTROPY_IGNORE_IDX toks =
             (if length toks = 1
              then Inr (map (\<lambda>c. if c then CROSS_ENTROPY_IGNORE_IDX else hd toks) msk)
              else Inl (ValueError ''operands could not be broadcast together''))" .
  have a: "InstructDataset_prepare_sample validate_messages self sample s =
             (if length toks = 1 then (Inl AssertionError, s')
              else (Inl (ValueError ''operands could not be broadcast together''), s'))"
    using InstructDataset_prepare_sample_tokenized
            [where validate_messages = validate_messages and ts = ts, OF assms(1-5)]
          w assms(7)
    by simp
  have b: "ISSAIInstructDataset_prepare_sample validate_messages self sample s =
             (if length toks = 1 then (Inl AssertionError, s')
              else (Inl (ValueError ''operands could not be broadcast together''), s'))"
    using ISSAIInstructDataset_prepare_sample_tokenized
            [where validate_messages = validate_messages and ts = ts, OF assms(1-5)]
          w assms(7)
    by simp
  from a b show ?thesis
    by (rule conjI)
qed

theorem prepare_sample_length_mismatch_witness:
  "InstructDataset_prepare_sample accept_messages
     (example_dataset\<lparr>self_tokenizer := fixed_tokenizer [5, 6, 7] [True, False]\<rparr>) example_sample 0 =
     (Inl (ValueError ''operands could not be broadcast together''), 1)
   \<and> ISSAIInstructDataset_prepare_sample accept_messages
     (example_dataset\<lparr>self_tokenizer := fixed_tokenizer [5] [True, False]\<rparr>) example_sample 0 =
     (Inl AssertionError, 1)"
proof -
  let ?d3 = "example_dataset\<lparr>self_tokenizer := fixed_tokenizer [5, 6, 7] [True, False]\<rparr>"
  let ?d1 = "example_dataset\<lparr>self_tokenizer := fixed_tokenizer [5] [True, False]\<rparr>"
  let ?prompt = "''Below is an instruction that describes a task. Write a response that appropriately completes the request.\<newline>\<newline>### Instruction:\<newline>Summarize\<newline>Long text\<newline>\<newline>### Response:\<newline>''"
  have st3:
    "apply_transform (self_transform ?d3) example_sample = Inr example_sample"
    "template_format (self_template ?d3) example_sample (self_column_map ?d3) = Inr ?prompt"
    "example_sample (key_output (self_column_map ?d3)) = Some ''Short summary''"
    using example_stages by simp_all
  have st1:
    "apply_transform (self_transform ?d1) example_sample = Inr example_sample"
    "template_format (self_template ?d1) example_sample (self_column_map ?d1) = Inr ?prompt"
    "example_sample (key_output (self_column_map ?d1)) = Some ''Short summary''"
    using example_stages by simp_all
  have v3: "accept_messages
              [\<lparr>role = User, content = ?prompt, masked = \<not> self_train_on_input ?d3\<rparr>,
               \<lparr>role = Assistant, content = ''Short summary'', masked = False\<rparr>] = None"
    by (simp add: accept_messages_def)
  have v1: "accept_messages
              [\<lparr>role = User, content = ?prompt, masked = \<not> self_train_on_input ?d1\<rparr>,
               \<lparr>role = Assistant, content = ''Short summary'', masked = False\<rparr>] = None"
    by (simp add: accept_messages_def)
  have t3: "tokenize_messages (self_tokenizer ?d3)
              [\<lparr>role = User, content = ?prompt, masked = \<not> self_train_on_input ?d3\<rparr>,
               \<lparr>role = Assistant, content = ''Short summary'', masked = False\<rparr>] 0 =
            (Inr ([5, 6, 7], [True, False]), 1)"
    by (simp add: fixed_tokenizer_def)
  have t1: "tokenize_messages (self_tokenizer ?d1)
              [\<lparr>role = User, content = ?prompt, masked = \<not> self_train_on_input ?d1\<rparr>,
               \<lparr>role = Assistant, content = ''Short summary'', masked = False\<rparr>] 0 =
            (Inr ([5], [True, False]), 1)"
    by (simp add: fixed_tokenizer_def)
  have n3: "length [5, 6, 7 :: int64] \<noteq> length [True, False]"
    by simp
  have n1: "length [5 :: int64] \<noteq> length [True, False]"
    by simp
  have o: "length [True, False] \<noteq> 1"
    by simp
  show ?thesis
    using prepare_sample_length_mismatch
            [where validate_messages = accept_messages and ts = example_sample,
             OF st3 v3 t3 n3 o]
          prepare_sample_length_mismatch
            [where validate_messages = accept_messages and ts = example_sample,
             OF st1 v1 t1 n1 o]
    by simp
qed

section \<open>Properties of the constructors\<close>

text \<open>
  \<open>instruct_dataset\<close> with \<open>packed\<close> and no \<open>max_seq_len\<close> on the tokenizer raises
  \<open>ValueError\<close> once the dataset is built, and never returns a dataset.
  \<open>issai_instruct_dataset\<close> has no such test: with \<open>packed\<close> its result is whatever
  \<open>PackedDataset\<close> makes of the \<open>max_seq_len\<close> argument.
\<close>

lemma instruct_dataset_packed_checked:
  assumes "InputOutputToMessages env train_on_input column_map new_system_prompt = None"
    and "get_component_from_path env template = Inr cls"
    and "InstructDataset_init env data_files tokenizer source cls None column_map
           train_on_input max_seq_len = Inr ds"
    and "tokenizer_max_seq_len tokenizer = None"
  shows "instruct_dataset env tokenizer data_files source column_map train_on_input
           new_system_prompt True max_seq_len template =
         Inl (ValueError ''PackedDataset requires a max_seq_len to be set on the tokenizer.'')"
  using assms by (simp add: instruct_dataset_def)

lemma instruct_dataset_packed_fails:
  assumes "tokenizer_max_seq_len tokenizer = None"
  shows "\<exists>e. instruct_dataset env tokenizer data_files source column_map train_on_input
           new_system_prompt True max_seq_len template = Inl e"
  using assms by (simp add: instruct_dataset_def split: option.splits sum.splits)

lemma issai_instruct_dataset_packed_unchecked:
  assumes "get_component_from_path env template = Inr cls"
    and "ISSAIInstructDataset_init tokenizer data cls None column_map train_on_input
           max_seq_len = Inr ds"
  shows "issai_instruct_dataset env data tokenizer template column_map train_on_input
           max_seq_len True =
         PackedDataset env ds max_seq_len (Some (pad_id tokenizer))"
  using assms by (simp add: issai_instruct_dataset_def)

text \<open>
  C7. With \<open>packed=True\<close>, a tokenizer whose \<open>max_seq_len\<close> is \<open>None\<close> and no
  \<open>max_seq_len\<close> argument, \<open>issai_instruct_dataset\<close> raises nothing of its own: it calls
  \<open>PackedDataset\<close> with \<open>max_seq_len=None\<close> and returns its result. On the same options
  \<open>instruct_dataset\<close> raises \<open>ValueError\<close>.
\<close>

theorem issai_instruct_dataset_packed_no_max_seq_len:
  "tokenizer_max_seq_len example_tokenizer = None
   \<and> issai_instruct_dataset example_collaborators [example_sample] example_tokenizer
       ''torchtune.data.AlpacaInstructTemplate'' None False None True =
     Inr (\<lparr>self_tokenizer = example_tokenizer, self_data = [example_sample],
           self_template = AlpacaInstructTemplate, self_transform = None,
           self_column_map = None, self_train_on_input = False, self_max_seq_len = None\<rparr>,
          None, Some 0)
   \<and> instruct_dataset example_collaborators example_tokenizer ''data.json'' ''json'' None False
       None True None ''torchtune.data.AlpacaInstructTemplate'' =
     Inl (ValueError ''PackedDataset requires a max_seq_len to be set on the tokenizer.'')"
  by (simp add: issai_instruct_dataset_def instruct_dataset_def example_collaborators_def
        ISSAIInstructDataset_init_def InstructDataset_init_def example_tokenizer_def)

text \<open>
  C10. \<open>InstructDataset.__init__\<close> raises \<open>ValueError\<close> for every template whose instance
  is not an \<open>AlpacaInstructTemplate\<close>, \<open>LlamaInstructTemplate\<close> among them;
  \<open>ISSAIInstructDataset.__init__\<close> accepts every template whose instance is an
  \<open>InstructTemplate\<close> and keeps it as \<open>self.template\<close>.
\<close>

theorem init_template_checks:
  "(instantiate template = Inr obj \<and> \<not> isinstance_AlpacaInstructTemplate obj \<longrightarrow>
      InstructDataset_init env data_files tokenizer source template transform column_map
        train_on_input max_seq_len =
      Inl (ValueError ''template must be an InstructTemplate class''))
   \<and> InstructDataset_init env data_files tokenizer source (TemplateClass LlamaInstructTemplate)
       transform column_map train_on_input max_seq_len =
     Inl (ValueError ''template must be an InstructTemplate class'')
   \<and> (instantiate template = Inr obj \<and> isinstance_InstructTemplate obj \<longrightarrow>
      (\<exists>t. template = TemplateClass t
         \<and> ISSAIInstructDataset_init tokenizer data template transform column_map
             train_on_input max_seq_len =
           Inr \<lparr>self_tokenizer = tokenizer, self_data = data, self_template = t,
                self_transform = transform, self_column_map = column_map,
                self_train_on_input = train_on_input, self_max_seq_len = max_seq_len\<rparr>))"
  by (cases template) (auto simp: InstructDataset_init_def ISSAIInstructDataset_init_def)

theorem init_template_checks_witness:
  "InstructDataset_init example_collaborators ''data.json'' example_tokenizer ''json''
     (TemplateClass LlamaInstructTemplate) None None False None =
     Inl (ValueError ''template must be an InstructTemplate class'')
   \<and> ISSAIInstructDataset_init example_tokenizer [example_sample]
       (TemplateClass LlamaInstructTemplate) None None False None =
     Inr \<lparr>self_tokenizer = example_tokenizer, self_data = [example_sample],
          self_template = LlamaInstructTemplate, self_transform = None,
          self_column_map = None, self_train_on_input = False, self_max_seq_len = None\<rparr>"
  using init_template_checks
          [of "TemplateClass LlamaInstructTemplate" "TemplateClass LlamaInstructTemplate"
              example_collaborators "''data.json''" example_tokenizer "''json''" None None False
              None "[example_sample]"]
  by simp

end
